theory Spec2Isabelle
  imports Complex_Main "HOL-Library.Char_ord" "HOL-Library.List_Lexorder" "HOL-Library.Sublist"
begin

section \<open>Space readings\<close>

text \<open>
  The page \<^verbatim>\<open>pages/2_Application_Drive.py\<close> works on a pandas dataframe of
  space readings, one row per drive and timestamp. A dataframe is modelled as the list of
  its rows, in row order.

  \<^item> \<open>Date\<close> is a pandas timestamp: the number of nanoseconds since the epoch.
  \<^item> \<open>Drive\<close> is the drive identifier, a string.
  \<^item> The four measurement columns are float columns. A float cell is a real number or
    null (\<open>NaN\<close>, written \<open>None\<close>): BigQuery columns are nullable and the page does not
    validate them. Rounding of float arithmetic is not modelled.
  Rows whose \<open>Date\<close> or \<open>Drive\<close> is null are outside the model.
\<close>

type_synonym cell = "real option"

record reading =
  Date :: int
  Drive :: string
  TotalSizeGB :: cell
  UsedSpaceGB :: cell
  FreeSpaceGB :: cell
  FreeSpacePercent :: cell

type_synonym dataframe = "reading list"

text \<open>Comparison of a float cell with a number: every comparison with \<open>NaN\<close> is false.\<close>

definition lt_cell :: "cell \<Rightarrow> real \<Rightarrow> bool" where
  "lt_cell c k = (case c of None \<Rightarrow> False | Some x \<Rightarrow> x < k)"

text \<open>The exceptions of the model: a division by zero, and \<open>re.error\<close>.\<close>

datatype error = ZeroDivisionError | ReError

section \<open>Status classification\<close>

definition get_status_class :: "cell \<Rightarrow> string" where
  "get_status_class free_percent =
     (if lt_cell free_percent 5 then ''status-emergency''
      else if lt_cell free_percent 10 then ''status-critical''
      else if lt_cell free_percent 20 then ''status-warning''
      else ''status-healthy'')"

definition get_status_text :: "cell \<Rightarrow> string" where
  "get_status_text free_percent =
     (if lt_cell free_percent 5 then ''Emergency''
      else if lt_cell free_percent 10 then ''Critical''
      else if lt_cell free_percent 20 then ''Warning''
      else ''Healthy'')"

definition get_border_color :: "cell \<Rightarrow> string" where
  "get_border_color free_percent =
     (if lt_cell free_percent 5 then ''#ff6b6b''
      else if lt_cell free_percent 10 then ''#ff8787''
      else if lt_cell free_percent 20 then ''#ffd43b''
      else ''#51cf66'')"

text \<open>The four severity bands: CSS class, label and colour.\<close>

definition bands :: "(string \<times> string \<times> string) list" where
  "bands =
     [(''status-emergency'', ''Emergency'', ''#ff6b6b''),
      (''status-critical'', ''Critical'', ''#ff8787''),
      (''status-warning'', ''Warning'', ''#ffd43b''),
      (''status-healthy'', ''Healthy'', ''#51cf66'')]"

section \<open>Dates\<close>

text \<open>
  A calendar date is the number of its day since the epoch; \<open>Timestamp.date()\<close> and
  \<open>Series.dt.date\<close> drop the time of day. \<open>Timedelta.days\<close> is the number of whole
  days in a difference of timestamps, rounded towards minus infinity.
\<close>

definition day_ns :: int where
  "day_ns = 86400000000000"

definition date_of :: "int \<Rightarrow> int" where
  "date_of t = t div day_ns"


text \<open>\<open>today\<close> stands for \<open>date.today()\<close>, read from the clock.\<close>

definition get_date_range :: "int \<Rightarrow> dataframe \<Rightarrow> int \<times> int" where
  "get_date_range today df =
     (if df = [] then (today, today)
      else (date_of (Min (set (map Date df))), date_of (Max (set (map Date df)))))"

section \<open>Filters\<close>

text \<open>The date filter of \<open>main\<close>: the mask of line 214.\<close>

definition date_filter :: "int \<Rightarrow> int \<Rightarrow> dataframe \<Rightarrow> dataframe" where
  "date_filter start_date end_date df =
     filter (\<lambda>r. date_of (Date r) \<ge> start_date \<and> date_of (Date r) \<le> end_date) df"

text \<open>\<open>df[df['Drive'].isin(selected_drives)]\<close>\<close>

definition isin_drives :: "string list \<Rightarrow> dataframe \<Rightarrow> dataframe" where
  "isin_drives selected_drives df = filter (\<lambda>r. Drive r \<in> set selected_drives) df"


section \<open>Latest statistics\<close>

text \<open>
  \<open>sort_values('Date', ascending=False)\<close>, as a stable sort. pandas does not promise
  the order of rows with equal dates; no property below depends on it.
\<close>

definition sort_values_desc :: "dataframe \<Rightarrow> dataframe" where
  "sort_values_desc df = sort_key (\<lambda>r. - Date r) df"


text \<open>
  \<open>groupby('Drive')\<close> yields its groups in ascending order of the key; each group keeps
  the row order of the frame.
\<close>

definition group_keys :: "dataframe \<Rightarrow> string list" where
  "group_keys df = sort (remdups (map Drive df))"

definition group_rows :: "string \<Rightarrow> dataframe \<Rightarrow> dataframe" where
  "group_rows d df = filter (\<lambda>r. Drive r = d) df"

text \<open>
  \<open>GroupBy.first()\<close> takes, column by column, the first entry of the group that is not
  null, and null when the group has none.
\<close>

fun first_valid :: "'a option list \<Rightarrow> 'a option" where
  "first_valid [] = None"
| "first_valid (None # xs) = first_valid xs"
| "first_valid (Some x # xs) = Some x"

definition group_first :: "string \<Rightarrow> dataframe \<Rightarrow> reading" where
  "group_first d g =
     \<lparr>Date = Date (hd g), Drive = d,
      TotalSizeGB = first_valid (map TotalSizeGB g),
      UsedSpaceGB = first_valid (map UsedSpaceGB g),
      FreeSpaceGB = first_valid (map FreeSpaceGB g),
      FreeSpacePercent = first_valid (map FreeSpacePercent g)\<rparr>"

text \<open>Line 134. A group is never empty, so \<open>hd\<close> is applied to non-empty lists only.\<close>

definition latest_rows :: "dataframe \<Rightarrow> dataframe" where
  "latest_rows df =
     map (\<lambda>d. group_first d (group_rows d (sort_values_desc df))) (group_keys df)"

text \<open>\<open>Series.sum()\<close> and \<open>Series.mean()\<close> skip null cells; the mean of no value is null.\<close>

definition valid_cells :: "cell list \<Rightarrow> real list" where
  "valid_cells cs = List.map_filter (\<lambda>c. c) cs"

definition sum_col :: "cell list \<Rightarrow> real" where
  "sum_col cs = sum_list (valid_cells cs)"

definition mean_col :: "cell list \<Rightarrow> cell" where
  "mean_col cs =
     (if valid_cells cs = [] then None
      else Some (sum_list (valid_cells cs) / real (length (valid_cells cs))))"

record stats =
  total_size :: real
  total_used :: real
  total_free :: real
  avg_free_percent :: cell
  critical_drives :: nat
  latest_data :: dataframe

text \<open>
  Lines 128 and 129. \<open>selected_drives\<close> is \<open>None\<close> by default or a list;
  \<open>if selected_drives:\<close> holds for a non-empty list only.
\<close>

definition restrict_drives :: "string list option \<Rightarrow> dataframe \<Rightarrow> dataframe" where
  "restrict_drives selected_drives df =
     (case selected_drives of
        None \<Rightarrow> df
      | Some ds \<Rightarrow> if ds \<noteq> [] then isin_drives ds df else df)"

definition get_latest_stats :: "dataframe \<Rightarrow> string list option \<Rightarrow> stats option" where
  "get_latest_stats df selected_drives =
     (if df = [] then None
      else
        let df1 = restrict_drives selected_drives df
        in if df1 = [] then None
           else
             let latest = latest_rows df1
             in Some \<lparr>total_size = sum_col (map TotalSizeGB latest),
                      total_used = sum_col (map UsedSpaceGB latest),
                      total_free = sum_col (map FreeSpaceGB latest),
                      avg_free_percent = mean_col (map FreeSpacePercent latest),
                      critical_drives =
                        length (filter (\<lambda>r. lt_cell (FreeSpacePercent r) 10) latest),
                      latest_data = latest\<rparr>)"

text \<open>A reading without a null cell.\<close>

definition complete :: "reading \<Rightarrow> bool" where
  "complete r \<longleftrightarrow> TotalSizeGB r \<noteq> None \<and> UsedSpaceGB r \<noteq> None
     \<and> FreeSpaceGB r \<noteq> None \<and> FreeSpacePercent r \<noteq> None"

text \<open>What a cell adds to a sum that skips null cells.\<close>

definition cell_value :: "cell \<Rightarrow> real" where
  "cell_value c = (case c of None \<Rightarrow> 0 | Some x \<Rightarrow> x)"

text \<open>
  The specification's words: the per-drive latest rows are, for each drive of the frame,
  the row of that drive with the maximum date (of rows with equal dates, the first in the
  frame). The drives come in ascending order.
\<close>

fun spec_max_date_row :: "reading \<Rightarrow> dataframe \<Rightarrow> reading" where
  "spec_max_date_row r [] = r"
| "spec_max_date_row r (x # xs) =
     (let m = spec_max_date_row x xs in if Date m \<le> Date r then r else m)"

definition spec_latest_rows :: "dataframe \<Rightarrow> dataframe" where
  "spec_latest_rows df =
     map (\<lambda>d. spec_max_date_row (hd (group_rows d df)) (tl (group_rows d df)))
       (group_keys df)"

section \<open>Growth analysis\<close>










section \<open>Table search\<close>

text \<open>
  Line 459: \<open>row.astype(str).str.contains(search_query, case=False, na=False).any()\<close>.
  \<open>str.contains\<close> takes its pattern as a regular expression (\<open>regex=True\<close> is the
  default) and searches it with \<open>re.IGNORECASE\<close>. The model covers the patterns made of
  literal characters and of the wildcard \<open>.\<close>, and the pattern that ends in a lone
  backslash, which \<open>re\<close> rejects with \<open>re.error\<close>; for any other use of a special
  character the outcome is \<open>Unmodelled\<close>. Characters are ASCII.

  The string forms of the cells of a row (\<open>astype(str)\<close>) are a parameter: the
  formatting of timestamps and floats is not modelled.
\<close>

datatype 'a outcome = Ok 'a | Raises error | Unmodelled

text \<open>Lower case of an ASCII letter.\<close>

definition lower_char :: "char \<Rightarrow> char" where
  "lower_char c =
     (if CHR ''A'' \<le> c \<and> c \<le> CHR ''Z'' then char_of (of_char c + (32::nat)) else c)"

text \<open>The special characters of \<open>re\<close>.\<close>

definition re_meta :: "char \<Rightarrow> bool" where
  "re_meta c \<longleftrightarrow> c \<in> set ''.^$*+?{}[]|()'' \<or> c = CHR 0x5C"

datatype atom = Lit char | Dot

fun cons_atom :: "atom \<Rightarrow> atom list outcome \<Rightarrow> atom list outcome" where
  "cons_atom a (Ok r) = Ok (a # r)"
| "cons_atom a (Raises e) = Raises e"
| "cons_atom a Unmodelled = Unmodelled"

fun re_compile :: "string \<Rightarrow> atom list outcome" where
  "re_compile [] = Ok []"
| "re_compile (c # cs) =
     (if c = CHR 0x5C then (if cs = [] then Raises ReError else Unmodelled)
      else if c = CHR ''.'' then cons_atom Dot (re_compile cs)
      else if re_meta c then Unmodelled
      else cons_atom (Lit c) (re_compile cs))"

text \<open>\<open>re.search\<close>: a match may start at any position; \<open>.\<close> matches any character but a newline.\<close>

fun atom_match :: "atom \<Rightarrow> char \<Rightarrow> bool" where
  "atom_match (Lit p) c = (lower_char p = lower_char c)"
| "atom_match Dot c = (c \<noteq> CHR 0x0A)"

fun match_here :: "atom list \<Rightarrow> string \<Rightarrow> bool" where
  "match_here [] s = True"
| "match_here (a # as) [] = False"
| "match_here (a # as) (c # cs) = (atom_match a c \<and> match_here as cs)"

fun re_search :: "atom list \<Rightarrow> string \<Rightarrow> bool" where
  "re_search r [] = match_here r []"
| "re_search r (c # cs) = (match_here r (c # cs) \<or> re_search r cs)"

text \<open>The lambda of line 459 for one row, and the mask over the rows of the frame.\<close>

definition row_matches :: "(reading \<Rightarrow> string list) \<Rightarrow> string \<Rightarrow> reading \<Rightarrow> bool outcome" where
  "row_matches astype_str search_query row =
     (case re_compile search_query of
        Ok r \<Rightarrow> Ok (list_ex (re_search r) (astype_str row))
      | Raises e \<Rightarrow> Raises e
      | Unmodelled \<Rightarrow> Unmodelled)"

fun apply_mask :: "(reading \<Rightarrow> bool outcome) \<Rightarrow> dataframe \<Rightarrow> dataframe outcome" where
  "apply_mask f [] = Ok []"
| "apply_mask f (row # rows) =
     (case f row of
        Ok b \<Rightarrow>
          (case apply_mask f rows of
             Ok kept \<Rightarrow> Ok (if b then row # kept else kept)
           | Raises e \<Rightarrow> Raises e
           | Unmodelled \<Rightarrow> Unmodelled)
      | Raises e \<Rightarrow> Raises e
      | Unmodelled \<Rightarrow> Unmodelled)"

text \<open>Lines 458 to 460.\<close>

definition table_search ::
  "(reading \<Rightarrow> string list) \<Rightarrow> string \<Rightarrow> dataframe \<Rightarrow> dataframe outcome" where
  "table_search astype_str search_query display_df =
     (if search_query \<noteq> [] then apply_mask (row_matches astype_str search_query) display_df
      else Ok display_df)"

text \<open>
  The specification's words: the string contains the query as a substring, compared
  case-insensitively.
\<close>

definition icontains :: "string \<Rightarrow> string \<Rightarrow> bool" where
  "icontains q s = sublist (map lower_char q) (map lower_char s)"

section \<open>Example readings\<close>

text \<open>Concrete readings, on which the theorems below are instantiated.\<close>

definition reading_c1 :: reading where
  "reading_c1 =
     \<lparr>Date = 1 * day_ns, Drive = ''C:'', TotalSizeGB = Some 100, UsedSpaceGB = Some 50,
      FreeSpaceGB = Some 50, FreeSpacePercent = Some 50\<rparr>"

definition reading_c2 :: reading where
  "reading_c2 =
     \<lparr>Date = 3 * day_ns + 7, Drive = ''C:'', TotalSizeGB = Some 100, UsedSpaceGB = Some 92,
      FreeSpaceGB = Some 8, FreeSpacePercent = Some 8\<rparr>"

definition reading_d1 :: reading where
  "reading_d1 =
     \<lparr>Date = 2 * day_ns, Drive = ''D:'', TotalSizeGB = Some 200, UsedSpaceGB = Some 100,
      FreeSpaceGB = Some 100, FreeSpacePercent = Some 50\<rparr>"


text \<open>The string forms of the cells of \<open>reading_c1\<close>.\<close>

definition example_astype_str :: "reading \<Rightarrow> string list" where
  "example_astype_str r =
     [''1970-01-02 00:00:00'', Drive r, ''100.0'', ''50.0'', ''50.0'', ''50.0'']"

text \<open>A reading whose used space was not recorded.\<close>

definition reading_c3_null :: reading where
  "reading_c3_null =
     \<lparr>Date = 4 * day_ns, Drive = ''C:'', TotalSizeGB = Some 100, UsedSpaceGB = None,
      FreeSpaceGB = Some 5, FreeSpacePercent = Some 5\<rparr>"

section \<open>Properties of the status classification\<close>

text \<open>
  C1, as the specification states it, sends each boundary value to the lower band, so that
  a free-space percentage of exactly 10 would be Critical. The comparisons of the
  classifiers are strict, and exactly 10 is Warning.
\<close>

theorem status_boundary_10_counterexample:
  "get_status_text (Some 10) = ''Warning'' \<and> get_status_text (Some 10) \<noteq> ''Critical''
   \<and> get_status_class (Some 10) = ''status-warning''
   \<and> get_status_class (Some 10) \<noteq> ''status-critical''"
  by (simp add: get_status_text_def get_status_class_def lt_cell_def)

text \<open>
  C1 (amended): the classification is a total, non-overlapping partition of the
  percentages into the four bands, with strict upper thresholds: Emergency below 5,
  Critical from 5 to below 10, Warning from 10 to below 20, Healthy from 20 on. Each
  boundary value 5, 10, 20 resolves to the upper band: exactly 10 is Warning.
\<close>

theorem status_partition:
  "(get_status_text (Some p) = ''Emergency'' \<longleftrightarrow> p < 5)
   \<and> (get_status_text (Some p) = ''Critical'' \<longleftrightarrow> 5 \<le> p \<and> p < 10)
   \<and> (get_status_text (Some p) = ''Warning'' \<longleftrightarrow> 10 \<le> p \<and> p < 20)
   \<and> (get_status_text (Some p) = ''Healthy'' \<longleftrightarrow> 20 \<le> p)
   \<and> (get_status_class (Some p) = ''status-emergency'' \<longleftrightarrow> p < 5)
   \<and> (get_status_class (Some p) = ''status-critical'' \<longleftrightarrow> 5 \<le> p \<and> p < 10)
   \<and> (get_status_class (Some p) = ''status-warning'' \<longleftrightarrow> 10 \<le> p \<and> p < 20)
   \<and> (get_status_class (Some p) = ''status-healthy'' \<longleftrightarrow> 20 \<le> p)
   \<and> get_status_text (Some 5) = ''Critical''
   \<and> get_status_text (Some 10) = ''Warning''
   \<and> get_status_text (Some 20) = ''Healthy''"
  by (simp add: get_status_text_def get_status_class_def lt_cell_def)

theorem status_partition_witness:
  "get_status_text (Some 7) = ''Critical'' \<and> get_status_class (Some 7) = ''status-critical''
   \<and> get_status_text (Some 0) = ''Emergency'' \<and> get_status_text (Some 100) = ''Healthy''"
  using status_partition [of 7] status_partition [of 0] status_partition [of 100]
  by simp

text \<open>
  C10: for every free-space percentage, null included, the CSS class, the label and the
  colour returned by the three classifiers are those of one and the same band.
\<close>

theorem status_functions_agree:
  "(get_status_class p, get_status_text p, get_border_color p) \<in> set bands"
  by (simp add: get_status_class_def get_status_text_def get_border_color_def bands_def)

section \<open>Properties of dates and of the date filter\<close>

lemma le_div_pos_iff:
  fixes k :: int
  assumes "0 < k"
  shows "s \<le> t div k \<longleftrightarrow> s * k \<le> t"
proof
  assume "s \<le> t div k"
  then have "s * k \<le> (t div k) * k"
    using assms by (simp add: mult_right_mono)
  also have "(t div k) * k \<le> t"
  proof -
    have "(t div k) * k + t mod k = t" by simp
    moreover have "0 \<le> t mod k" using assms by simp
    ultimately show ?thesis by linarith
  qed
  finally show "s * k \<le> t" .
next
  assume "s * k \<le> t"
  then have "(s * k) div k \<le> t div k"
    using assms by (rule zdiv_mono1)
  then show "s \<le> t div k" using assms by simp
qed

lemma div_le_pos_iff:
  fixes k :: int
  assumes "0 < k"
  shows "t div k \<le> e \<longleftrightarrow> t < (e + 1) * k"
  using le_div_pos_iff [OF assms, of "e + 1" t] by linarith

lemma day_ns_pos: "0 < day_ns"
  by (simp add: day_ns_def)

lemma date_of_mono: "a \<le> b \<Longrightarrow> date_of a \<le> date_of b"
  by (simp add: date_of_def day_ns_pos zdiv_mono1)

text \<open>A timestamp lies on a day from \<open>s\<close> to \<open>e\<close> exactly when it is not before the
  first instant of \<open>s\<close> and before the first instant of the day after \<open>e\<close>.\<close>

lemma date_of_bounds:
  "(s \<le> date_of t \<and> date_of t \<le> e) \<longleftrightarrow> (s * day_ns \<le> t \<and> t < (e + 1) * day_ns)"
  unfolding date_of_def
  using le_div_pos_iff [OF day_ns_pos, of s t] div_le_pos_iff [OF day_ns_pos, of t e]
  by simp

text \<open>
  C9: \<open>get_date_range\<close> returns (today, today) for an empty dataframe, and otherwise the
  calendar dates of the least and the greatest \<open>Date\<close>, which enclose the date of every
  row; its first component is never after its second.
\<close>

theorem get_date_range_ok:
  "(df = [] \<longrightarrow> get_date_range today df = (today, today))
   \<and> (df \<noteq> [] \<longrightarrow>
        get_date_range today df =
          (date_of (Min (Date ` set df)), date_of (Max (Date ` set df)))
        \<and> (\<forall>r \<in> set df. fst (get_date_range today df) \<le> date_of (Date r)
                          \<and> date_of (Date r) \<le> snd (get_date_range today df)))
   \<and> fst (get_date_range today df) \<le> snd (get_date_range today df)"
proof (cases "df = []")
  case True
  then show ?thesis by (simp add: get_date_range_def)
next
  case False
  have ne: "Date ` set df \<noteq> {}" using False by simp
  have lo: "\<And>r. r \<in> set df \<Longrightarrow> Min (Date ` set df) \<le> Date r"
    by simp
  have hi: "\<And>r. r \<in> set df \<Longrightarrow> Date r \<le> Max (Date ` set df)"
    by simp
  have mm: "Min (Date ` set df) \<le> Max (Date ` set df)"
    using ne by simp
  show ?thesis
    using False lo hi mm by (simp add: get_date_range_def date_of_mono)
qed

theorem get_date_range_ok_witness:
  "get_date_range 7 [] = (7, 7)
   \<and> [reading_c2, reading_d1, reading_c1] \<noteq> []
   \<and> get_date_range 7 [reading_c2, reading_d1, reading_c1] = (1, 3)
   \<and> fst (get_date_range 7 [reading_c2, reading_d1, reading_c1])
       \<le> snd (get_date_range 7 [reading_c2, reading_d1, reading_c1])"
  using get_date_range_ok [of "[]" 7]
    get_date_range_ok [of "[reading_c2, reading_d1, reading_c1]" 7]
  by (simp add: reading_c1_def reading_c2_def reading_d1_def date_of_def day_ns_def)

text \<open>
  C4: the date filter is inclusive on both ends: a row is kept if and only if the
  calendar date of its \<open>Date\<close> is not before \<open>start_date\<close> and not after
  \<open>end_date\<close>. In timestamps: from the first instant of \<open>start_date\<close> up to, and
  excluding, the first instant of the day after \<open>end_date\<close>.
\<close>

theorem date_filter_inclusive:
  "(r \<in> set (date_filter start_date end_date df) \<longleftrightarrow>
      r \<in> set df \<and> start_date \<le> date_of (Date r) \<and> date_of (Date r) \<le> end_date)
   \<and> (r \<in> set (date_filter start_date end_date df) \<longleftrightarrow>
      r \<in> set df \<and> start_date * day_ns \<le> Date r \<and> Date r < (end_date + 1) * day_ns)"
  using date_of_bounds [of start_date "Date r" end_date]
  by (auto simp: date_filter_def)

theorem date_filter_inclusive_witness:
  "reading_c1 \<in> set (date_filter 1 3 [reading_c2, reading_d1, reading_c1])
   \<and> reading_c2 \<in> set (date_filter 1 3 [reading_c2, reading_d1, reading_c1])
   \<and> reading_c2 \<notin> set (date_filter 1 2 [reading_c2, reading_d1, reading_c1])
   \<and> reading_c1 \<notin> set (date_filter 2 3 [reading_c2, reading_d1, reading_c1])"
  using date_filter_inclusive [of reading_c1 1 3 "[reading_c2, reading_d1, reading_c1]"]
    date_filter_inclusive [of reading_c2 1 3 "[reading_c2, reading_d1, reading_c1]"]
    date_filter_inclusive [of reading_c2 1 2 "[reading_c2, reading_d1, reading_c1]"]
    date_filter_inclusive [of reading_c1 2 3 "[reading_c2, reading_d1, reading_c1]"]
  by (simp add: reading_c1_def reading_c2_def reading_d1_def date_of_def day_ns_def)

section \<open>Properties of the latest statistics\<close>

lemma group_keys_set: "set (group_keys df) = Drive ` set df"
  by (simp add: group_keys_def)

lemma group_keys_distinct: "distinct (group_keys df)"
  by (simp add: group_keys_def)

lemma latest_rows_drives: "map Drive (latest_rows df) = group_keys df"
  by (simp add: latest_rows_def group_first_def comp_def)

lemma latest_rows_empty_iff: "latest_rows df = [] \<longleftrightarrow> df = []"
proof -
  have "latest_rows df = [] \<longleftrightarrow> set (group_keys df) = {}"
    by (simp add: latest_rows_def)
  then show ?thesis by (simp add: group_keys_set)
qed

text \<open>
  C8, as the specification states it, makes \<open>get_latest_stats\<close> return \<open>None\<close> whenever
  the restriction to the selected drives leaves no rows. With an empty selection the
  restriction would leave nothing, but the function skips it and returns statistics over
  all drives.
\<close>

theorem get_latest_stats_empty_selection_counterexample:
  "\<not> (get_latest_stats [reading_c1] (Some []) = None \<longleftrightarrow>
        [reading_c1] = [] \<or> isin_drives [] [reading_c1] = [])"
  by (simp add: get_latest_stats_def restrict_drives_def isin_drives_def Let_def)

text \<open>
  C8 (amended): \<open>get_latest_stats\<close> returns \<open>None\<close> exactly when its input dataframe is
  empty, or when a non-empty selection of drives is given and no row belongs to a selected
  drive; in every other case it returns statistics whose \<open>latest_data\<close> has a row.
\<close>

theorem get_latest_stats_None_iff:
  "(get_latest_stats df selected_drives = None \<longleftrightarrow>
      df = [] \<or> (\<exists>ds. selected_drives = Some ds \<and> ds \<noteq> [] \<and> isin_drives ds df = []))
   \<and> (\<forall>s. get_latest_stats df selected_drives = Some s \<longrightarrow> latest_data s \<noteq> [])"
  by (auto simp: get_latest_stats_def restrict_drives_def Let_def latest_rows_empty_iff
      split: option.splits if_splits)

theorem get_latest_stats_None_iff_witness:
  "get_latest_stats [reading_c1] (Some [''D:'']) = None
   \<and> get_latest_stats [] None = None
   \<and> get_latest_stats [reading_c1] (Some [''C:'']) \<noteq> None
   \<and> get_latest_stats [reading_c1] (Some []) \<noteq> None
   \<and> get_latest_stats [reading_c1] None \<noteq> None"
  using get_latest_stats_None_iff [of "[reading_c1]" "Some [''D:'']"]
    get_latest_stats_None_iff [of "[]" None]
    get_latest_stats_None_iff [of "[reading_c1]" "Some [''C:'']"]
    get_latest_stats_None_iff [of "[reading_c1]" "Some []"]
    get_latest_stats_None_iff [of "[reading_c1]" None]
  by (simp add: isin_drives_def reading_c1_def)

subsection \<open>The latest row of each drive\<close>

lemma sorted_hd_least:
  "xs \<noteq> [] \<Longrightarrow> sorted (map f xs) \<Longrightarrow> x \<in> set xs \<Longrightarrow> f (hd xs) \<le> f x"
  by (cases xs) auto

lemma group_rows_set: "set (group_rows d (sort_values_desc df)) = {r \<in> set df. Drive r = d}"
  by (auto simp: group_rows_def sort_values_desc_def)

lemma group_rows_nonempty:
  assumes "d \<in> Drive ` set df"
  shows "group_rows d (sort_values_desc df) \<noteq> []"
proof -
  have "set (group_rows d (sort_values_desc df)) \<noteq> {}"
    using assms by (auto simp: group_rows_set)
  then show ?thesis by auto
qed

lemma group_rows_hd:
  assumes "d \<in> Drive ` set df"
  shows "hd (group_rows d (sort_values_desc df)) \<in> set df"
    and "Drive (hd (group_rows d (sort_values_desc df))) = d"
    and "\<forall>r \<in> set df. Drive r = d \<longrightarrow> Date r \<le> Date (hd (group_rows d (sort_values_desc df)))"
proof -
  let ?g = "group_rows d (sort_values_desc df)"
  have ne: "?g \<noteq> []" using assms by (rule group_rows_nonempty)
  then have "hd ?g \<in> set ?g" by simp
  then show "hd ?g \<in> set df" and "Drive (hd ?g) = d"
    by (simp_all add: group_rows_set)
  have srt: "sorted (map (\<lambda>r. - Date r) ?g)"
    by (simp add: group_rows_def sort_values_desc_def sorted_filter)
  show "\<forall>r \<in> set df. Drive r = d \<longrightarrow> Date r \<le> Date (hd ?g)"
  proof (intro ballI impI)
    fix r assume "r \<in> set df" "Drive r = d"
    then have "r \<in> set ?g" by (simp add: group_rows_set)
    from sorted_hd_least [OF ne srt this] show "Date r \<le> Date (hd ?g)" by simp
  qed
qed

lemma first_valid_hd:
  "g \<noteq> [] \<Longrightarrow> f (hd g) \<noteq> None \<Longrightarrow> first_valid (map f g) = f (hd g)"
  by (cases g) auto

lemma group_first_complete:
  assumes "g \<noteq> []" and "complete (hd g)" and "Drive (hd g) = d"
  shows "group_first d g = hd g"
  using assms by (simp add: group_first_def complete_def first_valid_hd)

lemma latest_rows_set:
  "set (latest_rows df) =
     (\<lambda>d. group_first d (group_rows d (sort_values_desc df))) ` Drive ` set df"
  by (simp add: latest_rows_def group_keys_set)

text \<open>
  Whatever the cells hold, \<open>latest_rows\<close> has one row for each drive of the frame, and
  the row carries the greatest date of the drive.
\<close>

lemma latest_rows_max_date:
  "distinct (map Drive (latest_rows df))"
  "set (map Drive (latest_rows df)) = Drive ` set df"
  "\<forall>row \<in> set (latest_rows df). \<forall>r \<in> set df. Drive r = Drive row \<longrightarrow> Date r \<le> Date row"
  "\<forall>row \<in> set (latest_rows df). \<exists>r \<in> set df. Drive r = Drive row \<and> Date r = Date row"
proof -
  show "distinct (map Drive (latest_rows df))"
    by (simp add: latest_rows_drives group_keys_distinct)
  show "set (map Drive (latest_rows df)) = Drive ` set df"
    by (simp only: latest_rows_drives group_keys_set)
  show "\<forall>row \<in> set (latest_rows df). \<forall>r \<in> set df. Drive r = Drive row \<longrightarrow> Date r \<le> Date row"
  proof (intro ballI impI)
    fix row r
    assume row: "row \<in> set (latest_rows df)" and r: "r \<in> set df" "Drive r = Drive row"
    from row obtain d where d: "d \<in> Drive ` set df"
      and eq: "row = group_first d (group_rows d (sort_values_desc df))"
      by (auto simp: latest_rows_set)
    have "Drive row = d" "Date row = Date (hd (group_rows d (sort_values_desc df)))"
      using eq by (simp_all add: group_first_def)
    then show "Date r \<le> Date row"
      using group_rows_hd(3) [OF d] r by simp
  qed
  show "\<forall>row \<in> set (latest_rows df). \<exists>r \<in> set df. Drive r = Drive row \<and> Date r = Date row"
  proof
    fix row assume row: "row \<in> set (latest_rows df)"
    from row obtain d where d: "d \<in> Drive ` set df"
      and eq: "row = group_first d (group_rows d (sort_values_desc df))"
      by (auto simp: latest_rows_set)
    have "Drive row = d" "Date row = Date (hd (group_rows d (sort_values_desc df)))"
      using eq by (simp_all add: group_first_def)
    then show "\<exists>r \<in> set df. Drive r = Drive row \<and> Date r = Date row"
      using group_rows_hd(1,2) [OF d] by auto
  qed
qed

text \<open>When no cell of the frame is null, each row of \<open>latest_rows\<close> is a row of the frame.\<close>

lemma latest_rows_complete:
  assumes "\<forall>r \<in> set df. complete r"
  shows "\<forall>row \<in> set (latest_rows df). row \<in> set df"
proof
  fix row assume row: "row \<in> set (latest_rows df)"
  from row obtain d where d: "d \<in> Drive ` set df"
    and eq: "row = group_first d (group_rows d (sort_values_desc df))"
    by (auto simp: latest_rows_set)
  let ?g = "group_rows d (sort_values_desc df)"
  have "?g \<noteq> []" using d by (rule group_rows_nonempty)
  moreover have "complete (hd ?g)" using assms group_rows_hd(1) [OF d] by simp
  moreover have "Drive (hd ?g) = d" using d by (rule group_rows_hd(2))
  ultimately have "row = hd ?g" using eq by (simp add: group_first_complete)
  then show "row \<in> set df" using group_rows_hd(1) [OF d] by simp
qed

text \<open>
  C2: for a non-empty set of readings and a non-empty selection, \<open>latest_data\<close> should
  hold, for each drive, the maximum-date row of that drive. \<open>GroupBy.first()\<close> skips null
  cells column by column: when the most recent reading of drive C: has no used space
  recorded, the row returned for C: has the date of that reading and the used space of the
  older one. It is no row of the input, so it is not the maximum-date row.
\<close>

theorem get_latest_stats_null_cell:
  "map_option latest_data
     (get_latest_stats [reading_c3_null, reading_c1] (Some [''C:'']))
   = Some [\<lparr>Date = 4 * day_ns, Drive = ''C:'', TotalSizeGB = Some 100,
            UsedSpaceGB = Some 50, FreeSpaceGB = Some 5, FreeSpacePercent = Some 5\<rparr>]
   \<and> \<lparr>Date = 4 * day_ns, Drive = ''C:'', TotalSizeGB = Some 100,
        UsedSpaceGB = Some 50, FreeSpaceGB = Some 5, FreeSpacePercent = Some 5\<rparr>
       \<notin> set [reading_c3_null, reading_c1]"
  by (simp add: get_latest_stats_def restrict_drives_def isin_drives_def Let_def
      reading_c3_null_def reading_c1_def latest_rows_def group_keys_def group_rows_def
      sort_values_desc_def group_first_def day_ns_def)

subsection \<open>Totals, mean and count\<close>

lemma sum_col_eq: "sum_col (map f rows) = (\<Sum>r\<leftarrow>rows. cell_value (f r))"
proof (induction rows)
  case Nil
  show ?case by (simp add: sum_col_def valid_cells_def List.map_filter_simps)
next
  case (Cons r rows)
  then show ?case
    by (cases "f r")
      (simp_all add: sum_col_def valid_cells_def List.map_filter_simps cell_value_def)
qed

lemma valid_cells_all:
  "\<forall>r \<in> set rows. f r \<noteq> None \<Longrightarrow>
     valid_cells (map f rows) = map (\<lambda>r. cell_value (f r)) rows"
  by (induction rows) (auto simp: valid_cells_def List.map_filter_simps cell_value_def)

lemma mean_col_all:
  assumes "rows \<noteq> []" and "\<forall>r \<in> set rows. f r \<noteq> None"
  shows "mean_col (map f rows) = Some ((\<Sum>r\<leftarrow>rows. cell_value (f r)) / real (length rows))"
  using assms by (simp add: mean_col_def valid_cells_all)

lemma get_latest_stats_Some:
  assumes "get_latest_stats df sel = Some s"
  shows "latest_data s = latest_rows (restrict_drives sel df)"
    and "total_size s = sum_col (map TotalSizeGB (latest_data s))"
    and "total_used s = sum_col (map UsedSpaceGB (latest_data s))"
    and "total_free s = sum_col (map FreeSpaceGB (latest_data s))"
    and "avg_free_percent s = mean_col (map FreeSpacePercent (latest_data s))"
    and "critical_drives s =
           length (filter (\<lambda>r. lt_cell (FreeSpacePercent r) 10) (latest_data s))"
    and "latest_data s \<noteq> []"
  using assms
  by (auto simp: get_latest_stats_def Let_def latest_rows_empty_iff split: if_splits)

text \<open>
  When no cell of the restricted frame is null, \<open>latest_data\<close> holds one row for each
  drive, a row of the frame that no row of the same drive is later than, and the statistics
  are the sums, the mean and the count over these rows.
\<close>

lemma get_latest_stats_totals_complete:
  assumes "get_latest_stats df selected_drives = Some s"
    and "\<forall>r \<in> set (restrict_drives selected_drives df). complete r"
  shows "distinct (map Drive (latest_data s))"
    and "Drive ` set (latest_data s) = Drive ` set (restrict_drives selected_drives df)"
    and "\<forall>row \<in> set (latest_data s).
           row \<in> set (restrict_drives selected_drives df)
         \<and> (\<forall>r \<in> set (restrict_drives selected_drives df).
               Drive r = Drive row \<longrightarrow> Date r \<le> Date row)"
    and "total_size s = (\<Sum>row\<leftarrow>latest_data s. cell_value (TotalSizeGB row))"
    and "total_used s = (\<Sum>row\<leftarrow>latest_data s. cell_value (UsedSpaceGB row))"
    and "total_free s = (\<Sum>row\<leftarrow>latest_data s. cell_value (FreeSpaceGB row))"
    and "avg_free_percent s =
           Some ((\<Sum>row\<leftarrow>latest_data s. cell_value (FreeSpacePercent row))
                 / real (length (latest_data s)))"
    and "critical_drives s =
           length (filter (\<lambda>row. cell_value (FreeSpacePercent row) < 10) (latest_data s))"
proof -
  let ?f = "restrict_drives selected_drives df"
  note f = get_latest_stats_Some [OF assms(1)]
  have rows: "\<forall>row \<in> set (latest_data s). row \<in> set ?f"
    using latest_rows_complete [OF assms(2)] f(1) by simp
  then have comp: "\<forall>row \<in> set (latest_data s). complete row"
    using assms(2) by blast
  show "distinct (map Drive (latest_data s))"
    using latest_rows_max_date(1) [of ?f] f(1) by simp
  show "Drive ` set (latest_data s) = Drive ` set ?f"
    using latest_rows_max_date(2) [of ?f] f(1) by simp
  show "\<forall>row \<in> set (latest_data s).
           row \<in> set ?f \<and> (\<forall>r \<in> set ?f. Drive r = Drive row \<longrightarrow> Date r \<le> Date row)"
    using rows latest_rows_max_date(3) [of ?f] f(1) by simp
  show "total_size s = (\<Sum>row\<leftarrow>latest_data s. cell_value (TotalSizeGB row))"
    using f(2) by (simp add: sum_col_eq)
  show "total_used s = (\<Sum>row\<leftarrow>latest_data s. cell_value (UsedSpaceGB row))"
    using f(3) by (simp add: sum_col_eq)
  show "total_free s = (\<Sum>row\<leftarrow>latest_data s. cell_value (FreeSpaceGB row))"
    using f(4) by (simp add: sum_col_eq)
  have pc: "\<forall>row \<in> set (latest_data s). FreeSpacePercent row \<noteq> None"
    using comp by (simp add: complete_def)
  show "avg_free_percent s =
           Some ((\<Sum>row\<leftarrow>latest_data s. cell_value (FreeSpacePercent row))
                 / real (length (latest_data s)))"
    using f(5) f(7) pc by (simp add: mean_col_all)
  have "\<And>row. row \<in> set (latest_data s) \<Longrightarrow>
      lt_cell (FreeSpacePercent row) 10 \<longleftrightarrow> cell_value (FreeSpacePercent row) < 10"
    using pc by (auto simp: lt_cell_def cell_value_def split: option.splits)
  then have "filter (\<lambda>row. lt_cell (FreeSpacePercent row) 10) (latest_data s)
      = filter (\<lambda>row. cell_value (FreeSpacePercent row) < 10) (latest_data s)"
    by (intro filter_cong) simp_all
  then show "critical_drives s =
           length (filter (\<lambda>row. cell_value (FreeSpacePercent row) < 10) (latest_data s))"
    using f(6) by simp
qed

text \<open>
  C3: the totals should be the sums of \<open>TotalSizeGB\<close>, \<open>UsedSpaceGB\<close> and
  \<open>FreeSpaceGB\<close> over the per-drive latest rows, with the mean and the count below 10
  over the same rows. The rows that \<open>get_latest_stats\<close> sums over are those of
  \<open>GroupBy.first()\<close>, which fills a null cell of the latest row from an older reading.
  With the readings of drives C: and D: below, the latest reading of C: has no used space
  recorded: the per-drive latest rows hold a used space of 100 in all, and \<open>total_used\<close>
  is 150, the 50 of the older reading of C: included.
\<close>

theorem get_latest_stats_totals_null_cell:
  "get_latest_stats [reading_c1, reading_d1, reading_c3_null] None =
     Some \<lparr>total_size = 300, total_used = 150, total_free = 105,
           avg_free_percent = Some (55 / 2), critical_drives = 1,
           latest_data =
             [\<lparr>Date = 4 * day_ns, Drive = ''C:'', TotalSizeGB = Some 100,
               UsedSpaceGB = Some 50, FreeSpaceGB = Some 5, FreeSpacePercent = Some 5\<rparr>,
              reading_d1]\<rparr>
   \<and> spec_latest_rows (restrict_drives None [reading_c1, reading_d1, reading_c3_null])
       = [reading_c3_null, reading_d1]
   \<and> sum_col (map UsedSpaceGB [reading_c3_null, reading_d1]) = 100"
  by code_simp

section \<open>Properties of the growth analysis\<close>

















section \<open>Properties of the table search\<close>

lemma re_compile_literal:
  "list_all (\<lambda>c. \<not> re_meta c) q \<Longrightarrow> re_compile q = Ok (map Lit q)"
  by (induction q) (auto simp: re_meta_def)

lemma match_here_literal:
  "match_here (map Lit q) s \<longleftrightarrow> prefix (map lower_char q) (map lower_char s)"
proof (induction q arbitrary: s)
  case Nil
  show ?case by simp
next
  case (Cons c q)
  then show ?case by (cases s) auto
qed

lemma re_search_literal:
  "re_search (map Lit q) s \<longleftrightarrow> icontains q s"
proof (induction s)
  case Nil
  show ?case by (cases q) (simp_all add: icontains_def)
next
  case (Cons c s)
  then show ?case
    by (simp add: icontains_def match_here_literal sublist_Cons_right del: match_here.simps)
qed

lemma apply_mask_Ok:
  "(\<And>row. f row = Ok (P row)) \<Longrightarrow> apply_mask f df = Ok (filter P df)"
  by (induction df) simp_all

text \<open>
  For a non-empty query without special characters the search keeps exactly the rows of
  which some cell contains the query, compared case-insensitively.
\<close>

lemma table_search_literal:
  assumes "search_query \<noteq> []" and "list_all (\<lambda>c. \<not> re_meta c) search_query"
  shows "table_search astype_str search_query display_df =
     Ok (filter (\<lambda>row. \<exists>s \<in> set (astype_str row). icontains search_query s) display_df)"
proof -
  have "\<And>row. row_matches astype_str search_query row =
      Ok (\<exists>s \<in> set (astype_str row). icontains search_query s)"
    using assms(2)
    by (simp add: row_matches_def re_compile_literal re_search_literal list_ex_iff)
  then show ?thesis using assms(1) by (simp add: table_search_def apply_mask_Ok)
qed

text \<open>
  C7: a row should be kept if and only if the string form of one of its columns contains
  the query as a substring, compared case-insensitively. The query is searched as a regular
  expression: the query \<open>c.\<close> keeps the row of drive \<open>C:\<close>, none of whose cells
  contains \<open>c.\<close>, and the query made of \<open>C:\<close> and a backslash raises
  \<open>re.error\<close> instead of filtering.
\<close>

theorem table_search_regex:
  "table_search example_astype_str ''c.'' [reading_c1] = Ok [reading_c1]
   \<and> \<not> list_ex (icontains ''c.'') (example_astype_str reading_c1)
   \<and> table_search example_astype_str (''C:'' @ [CHR 0x5C]) [reading_c1] = Raises ReError"
  by code_simp

end
